theory Spec2Isabelle
  imports Complex_Main
begin

section \<open>Errors\<close>

text \<open>
  The Python exceptions that the two modules can raise themselves. An exception that
  leaves a function is modelled as a value: \<open>Inl e\<close> of a sum, or \<open>Some e\<close> next to
  the state reached when it was raised.
\<close>

datatype error =
    AssertionError
  | KeyError
  | RuntimeError
  | AttributeError
  | TypeError
  | ValueError
  | IndexError
  | ZeroDivisionError

section \<open>The validation script: \<open>validate_benchmark\<close>\<close>

text \<open>
  \<open>validate_benchmark.py\<close> works through collaborators that are not part of the two
  modules: the file system (\<open>Path.is_dir\<close>, \<open>Path.rglob\<close>), the helpers of
  \<open>validation_utils\<close> and the benchmark behind the bookkeeper. They are the fields of
  one record, so that every statement below holds for all of them. \<open>'c\<close> is the type of
  configurations, \<open>'t\<close> of loaded trajectories, \<open>'s\<close> of the state of the benchmark,
  which \<open>objective_function_test\<close> may read and change. Function values are floats in
  Python; they are reals here, which is exact for the only operation the script applies to
  them, the comparison with the literal \<open>-1234\<close> (not-a-number is outside the model).
\<close>

record ('c, 't, 's) collaborators =
  is_dir :: "string \<Rightarrow> bool"
  rglob :: "string \<Rightarrow> string list"
  load_trajectories :: "string list \<Rightarrow> 't list"
  get_unvalidated_configurations :: "'t list \<Rightarrow> 'c list"
  load_validated_configurations :: "string \<Rightarrow> (string \<rightharpoonup> real)"
  str :: "'c \<Rightarrow> string"
  benchmark_obj :: "int \<Rightarrow> 's"
  objective_function_test :: "'s \<Rightarrow> 'c \<Rightarrow> int \<Rightarrow> real \<times> 's"

text \<open>What the script does to the outside world, in the order in which it does it.\<close>

datatype 'c event =
    Glob string
  | LoadTrajectories "string list"
  | LoadValidated string
  | LoadBenchmark string
  | Evaluate 'c
  | CloseBenchmark
  | WriteTrajectory string

text \<open>
  The state of the loop of lines 121 to 133: the dictionary \<open>validation_results\<close>, the
  benchmark, and the configurations handed to \<open>objective_function_test\<close> so far.
\<close>

record ('c, 's) loop_state =
  validation_results :: "string \<rightharpoonup> real"
  benchmark :: 's
  evaluated :: "'c list"

text \<open>
  Line 85: \<open>{str(configuration): -1234 for configuration in unvalidated_configurations}\<close>.
\<close>

definition initial_results :: "('c \<Rightarrow> string) \<Rightarrow> 'c list \<Rightarrow> (string \<rightharpoonup> real)" where
  "initial_results s cfgs = fold (\<lambda>c m. m(s c \<mapsto> - 1234)) cfgs Map.empty"

text \<open>
  Lines 121 to 133. \<open>validation_results[config_str]\<close> raises \<open>KeyError\<close> on a missing
  key; \<open>continue\<close> is the recursive call on the unchanged state.
\<close>

fun validate_loop ::
  "('c, 't, 's) collaborators \<Rightarrow> int \<Rightarrow> 'c list \<Rightarrow> ('c, 's) loop_state
     \<Rightarrow> error option \<times> ('c, 's) loop_state" where
  "validate_loop env rng [] st = (None, st)"
| "validate_loop env rng (configuration # rest) st =
     (let config_str = str env configuration in
      case validation_results st config_str of
        None \<Rightarrow> (Some KeyError, st)
      | Some v \<Rightarrow>
          if v \<noteq> - 1234 then validate_loop env rng rest st
          else
            let (function_value, b) = objective_function_test env (benchmark st) configuration rng
            in validate_loop env rng rest
                 \<lparr>validation_results = (validation_results st)(config_str \<mapsto> function_value),
                  benchmark = b,
                  evaluated = evaluated st @ [configuration]\<rparr>)"

text \<open>
  What a call of \<open>validate_benchmark\<close> leaves behind: the value returned or the exception
  raised, the dictionary \<open>validation_results\<close> at that moment, and the trace of events.
\<close>

record 'c run =
  retval :: "error + int"
  results :: "string \<rightharpoonup> real"
  events :: "'c event list"

text \<open>
  Lines 76 to 141. The arguments \<open>use_local\<close> and \<open>benchmark_params\<close> only reach the
  loading of the benchmark, which is the collaborator \<open>benchmark_obj\<close>.
\<close>

definition validate_benchmark ::
  "('c, 't, 's) collaborators \<Rightarrow> string \<Rightarrow> string \<Rightarrow> int \<Rightarrow> bool \<Rightarrow> 'c run" where
  "validate_benchmark env benchmark_name output_dir rng recompute_all =
     (if \<not> is_dir env output_dir
      then \<lparr>retval = Inl AssertionError, results = Map.empty, events = []\<rparr>
      else
        let unvalidated_trajectories_paths = rglob env output_dir;
            unvalidated_trajectories = load_trajectories env unvalidated_trajectories_paths;
            unvalidated_configurations =
              get_unvalidated_configurations env unvalidated_trajectories;
            validation_results0 = initial_results (str env) unvalidated_configurations;
            already_evaluated_configs = load_validated_configurations env output_dir;
            validation_results1 =
              (if \<not> recompute_all then validation_results0 ++ already_evaluated_configs
               else validation_results0);
            (err, st) =
              validate_loop env rng unvalidated_configurations
                \<lparr>validation_results = validation_results1,
                 benchmark = benchmark_obj env rng,
                 evaluated = []\<rparr>;
            evs = [Glob output_dir, LoadTrajectories unvalidated_trajectories_paths,
                   LoadValidated output_dir, LoadBenchmark benchmark_name]
                  @ map Evaluate (evaluated st)
        in case err of
             Some e \<Rightarrow> \<lparr>retval = Inl e, results = validation_results st, events = evs\<rparr>
           | None \<Rightarrow>
               \<lparr>retval = Inr 1, results = validation_results st,
                events = evs @ [CloseBenchmark]
                  @ map (\<lambda>(unvalidated_traj, unvalidated_traj_path).
                           WriteTrajectory unvalidated_traj_path)
                      (zip unvalidated_trajectories unvalidated_trajectories_paths)\<rparr>)"

text \<open>The configurations with string representation \<open>k\<close> among those evaluated in a run.\<close>

definition evaluations_of :: "('c \<Rightarrow> string) \<Rightarrow> string \<Rightarrow> 'c event list \<Rightarrow> 'c list" where
  "evaluations_of s k evs =
     concat (map (\<lambda>e. case e of Evaluate c \<Rightarrow> if s c = k then [c] else [] | _ \<Rightarrow> []) evs)"

text \<open>
  Names for three expressions of \<open>validate_benchmark\<close>: the list
  \<open>unvalidated_configurations\<close> of line 84, the dictionary \<open>validation_results\<close> as it
  stands after line 93, and the state in which the loop of line 121 starts.
\<close>

definition trajectory_configurations :: "('c, 't, 's) collaborators \<Rightarrow> string \<Rightarrow> 'c list" where
  "trajectory_configurations env output_dir =
     get_unvalidated_configurations env (load_trajectories env (rglob env output_dir))"

definition merged_results ::
  "('c, 't, 's) collaborators \<Rightarrow> string \<Rightarrow> bool \<Rightarrow> (string \<rightharpoonup> real)" where
  "merged_results env output_dir recompute_all =
     (if \<not> recompute_all
      then initial_results (str env) (trajectory_configurations env output_dir)
             ++ load_validated_configurations env output_dir
      else initial_results (str env) (trajectory_configurations env output_dir))"

definition loop_start ::
  "('c, 't, 's) collaborators \<Rightarrow> string \<Rightarrow> int \<Rightarrow> bool \<Rightarrow> ('c, 's) loop_state" where
  "loop_start env output_dir rng recompute_all =
     \<lparr>validation_results = merged_results env output_dir recompute_all,
      benchmark = benchmark_obj env rng, evaluated = []\<rparr>"

text \<open>
  A concrete run: two trajectory files that share the configuration \<open>x\<close>, a run history
  that already holds \<open>y\<close>, and a benchmark that counts its evaluations and returns the
  count. The second environment has a benchmark whose function value is \<open>-1234\<close>; in
  the third the run history holds \<open>-1234\<close> for \<open>y\<close>.
\<close>

definition example_env :: "(string, string list, nat) collaborators" where
  "example_env =
     \<lparr>is_dir = (\<lambda>p. p = ''out''),
      rglob = (\<lambda>p. [''out/run1/hpolib_trajectory.txt'', ''out/run2/hpolib_trajectory.txt'']),
      load_trajectories =
        map (\<lambda>p. if p = ''out/run1/hpolib_trajectory.txt'' then [''x'', ''y''] else [''x'']),
      get_unvalidated_configurations = concat,
      load_validated_configurations = (\<lambda>p. [''y'' \<mapsto> 1 / 2]),
      str = (\<lambda>c. c),
      benchmark_obj = (\<lambda>rng. 0),
      objective_function_test = (\<lambda>b c rng. (real (Suc b), Suc b))\<rparr>"

definition sentinel_env :: "(string, string list, nat) collaborators" where
  "sentinel_env = example_env\<lparr>objective_function_test := (\<lambda>b c rng. (- 1234, Suc b))\<rparr>"

definition stale_env :: "(string, string list, nat) collaborators" where
  "stale_env = example_env\<lparr>load_validated_configurations := (\<lambda>p. [''y'' \<mapsto> - 1234])\<rparr>"

text \<open>
  A fourth environment: the run history holds \<open>-1234\<close> for \<open>z\<close>, a configuration of
  no trajectory.
\<close>

definition history_only_env :: "(string, string list, nat) collaborators" where
  "history_only_env =
     example_env\<lparr>load_validated_configurations := (\<lambda>p. [''z'' \<mapsto> - 1234])\<rparr>"

section \<open>The optimizers of \<open>fabolas_optimizer.py\<close>\<close>

subsection \<open>Python numbers and values\<close>

text \<open>
  A Python number is an \<open>int\<close> or a \<open>float\<close>; a \<open>bool\<close> is the \<open>int\<close> 0 or 1. Floats are
  modelled by reals, so rounding is outside the model. \<open>int(x)\<close> truncates towards zero,
  and \<open>max(a, b)\<close> returns its first argument unless the second is greater.
\<close>

datatype pynum = PyInt int | PyFloat real

fun num_val :: "pynum \<Rightarrow> real" where
  "num_val (PyInt i) = of_int i"
| "num_val (PyFloat x) = x"

fun py_int :: "pynum \<Rightarrow> int" where
  "py_int (PyInt i) = i"
| "py_int (PyFloat x) = (if 0 \<le> x then \<lfloor>x\<rfloor> else \<lceil>x\<rceil>)"

fun py_mul :: "pynum \<Rightarrow> pynum \<Rightarrow> pynum" where
  "py_mul (PyInt a) (PyInt b) = PyInt (a * b)"
| "py_mul a b = PyFloat (num_val a * num_val b)"

fun py_add :: "pynum \<Rightarrow> pynum \<Rightarrow> pynum" where
  "py_add (PyInt a) (PyInt b) = PyInt (a + b)"
| "py_add a b = PyFloat (num_val a + num_val b)"

definition py_max :: "pynum \<Rightarrow> pynum \<Rightarrow> pynum" where
  "py_max a b = (if num_val a < num_val b then b else a)"

datatype pyval = Num pynum | Str string

text \<open>
  Indexing of a list or a one-dimensional array: a negative index counts from the end, an
  index outside the array raises \<open>IndexError\<close>.
\<close>

definition py_index :: "'a list \<Rightarrow> int \<Rightarrow> error + 'a" where
  "py_index xs i =
     (if 0 \<le> i \<and> i < int (length xs) then Inr (xs ! nat i)
      else if i < 0 \<and> - int (length xs) \<le> i then Inr (xs ! nat (int (length xs) + i))
      else Inl IndexError)"

text \<open>The slice \<open>xs[:k]\<close>.\<close>

definition py_take :: "int \<Rightarrow> 'a list \<Rightarrow> 'a list" where
  "py_take k xs = (if 0 \<le> k then take (nat k) xs else take (nat (int (length xs) + k)) xs)"

subsection \<open>numpy\<close>

text \<open>
  \<open>np.linspace(start, stop, num)\<close> as numpy documents it: \<open>num\<close> samples with the step
  \<open>(stop - start) / (num - 1)\<close>, the single sample \<open>start\<close> for \<open>num = 1\<close>.
  \<open>np.arange(start, stop)\<close> holds the integers from \<open>start\<close> below \<open>stop\<close>, or
  \<open>ceil(stop - start)\<close> floats in steps of one.
\<close>

definition linspace :: "real \<Rightarrow> real \<Rightarrow> nat \<Rightarrow> real list" where
  "linspace start stop num =
     (if num = 1 then [start]
      else map (\<lambda>i. start + real i * ((stop - start) / real (num - 1))) [0..<num])"

fun arange :: "pynum \<Rightarrow> pynum \<Rightarrow> pynum list" where
  "arange (PyInt start) (PyInt stop) = map PyInt [start..stop - 1]"
| "arange start stop =
     map (\<lambda>i. PyFloat (num_val start + real i)) [0..<nat \<lceil>num_val stop - num_val start\<rceil>]"

subsection \<open>Hyperparameters and the optimizer object\<close>

text \<open>
  The classes of ConfigSpace that the two constructors tell apart with \<open>isinstance\<close>, and
  one constructor for every other class (a constant, a normal float, ...). The
  discriminators are the \<open>isinstance\<close> tests. \<open>seq_order\<close> is what \<open>get_seq_order()\<close>
  returns.
\<close>

datatype hyperparameter =
    is_UniformInteger: UniformIntegerHyperparameter (name: string) (lower: pynum) (upper: pynum)
  | is_UniformFloat: UniformFloatHyperparameter (name: string) (lower: pynum) (upper: pynum)
  | is_Ordinal: OrdinalHyperparameter (name: string) (seq_order: "pyval list")
  | is_Categorical: CategoricalHyperparameter (name: string) (choices: "pyval list")
  | OtherHyperparameter (name: string)

text \<open>
  What a constructor finds once \<open>super().__init__\<close> and \<open>generate_space_mappings\<close> have
  returned: the attributes that the base class has set, and the collaborators. The base
  class, the helper \<open>get_mandatory_optimizer_setting\<close>, the class
  \<open>SmarterInformationSourceParameter\<close> (of which only \<open>bounds[0]\<close> is read, given here as
  a function of the number of sources) and the benchmark are not in the module. \<open>'b\<close> is
  the state of the benchmark; \<open>objective_function\<close> returns \<open>function_value\<close> and \<open>cost\<close>.
  A configuration is the dictionary handed to \<open>cs.Configuration\<close>, a fidelity the
  one-entry dictionary of line 116.
\<close>

type_synonym configuration = "(string \<times> pyval) list"

type_synonym fidelity = "string \<times> pyval"

record 'b optimizer =
  settings :: "string \<rightharpoonup> pynum"
  get_mandatory_optimizer_setting :: "(string \<rightharpoonup> pynum) \<Rightarrow> string \<Rightarrow> error + pynum"
  main_fidelity :: hyperparameter
  min_budget :: pynum
  max_budget :: pynum
  dimensionality :: nat
  to_cs :: "(string \<times> (real \<Rightarrow> pyval)) list"
  has_X_train :: bool
  has_y_train :: bool
  y_train_rows :: nat
  information_source_bounds :: "nat \<Rightarrow> int \<times> int"
  objective_function :: "'b \<Rightarrow> configuration \<Rightarrow> fidelity \<Rightarrow> (real \<times> real) \<times> 'b"

subsection \<open>\<open>FabolasOptimizer\<close>\<close>

record 'b FabolasOptimizer = "'b optimizer" +
  s_min :: pynum
  s_max :: pynum
  n_init :: int

text \<open>
  Lines 64 and 65 (and 144 and 145):
  \<open>int(get_mandatory_optimizer_setting(settings, "init_samples_per_dim") * dimensionality)\<close>.
\<close>

definition read_n_init :: "'b optimizer \<Rightarrow> error + int" where
  "read_n_init self =
     (case get_mandatory_optimizer_setting self (settings self) ''init_samples_per_dim'' of
        Inl e \<Rightarrow> Inl e
      | Inr v \<Rightarrow> Inr (py_int (py_mul v (PyInt (int (dimensionality self))))))"

text \<open>Lines 35 to 65. The wrapper of lines 56 to 61 is only stored.\<close>

definition FabolasOptimizer_init :: "'b optimizer \<Rightarrow> error + 'b FabolasOptimizer" where
  "FabolasOptimizer_init self =
     (if is_UniformInteger (main_fidelity self) then
        (case read_n_init self of
           Inl e \<Rightarrow> Inl e
         | Inr n \<Rightarrow>
             Inr (optimizer.extend self
                    (FabolasOptimizer.fields
                       (py_max (lower (main_fidelity self)) (PyInt 1))
                       (upper (main_fidelity self))
                       n)))
      else if is_UniformFloat (main_fidelity self) then
        (if \<not> has_X_train self then Inl AssertionError
         else if \<not> has_y_train self then Inl AssertionError
         else if \<not> (0 \<le> num_val (lower (main_fidelity self))
                     \<and> num_val (upper (main_fidelity self)) \<le> 1)
         then Inl AssertionError
         else
           (case read_n_init self of
              Inl e \<Rightarrow> Inl e
            | Inr n \<Rightarrow>
                Inr (optimizer.extend self
                       (FabolasOptimizer.fields
                          (py_max (py_mul (lower (main_fidelity self))
                                     (PyInt (int (y_train_rows self)))) (PyInt 1))
                          (py_mul (upper (main_fidelity self)) (PyInt (int (y_train_rows self))))
                          n))))
      else Inl RuntimeError)"

text \<open>
  Lines 70 to 76: the arguments with which \<open>run\<close> calls \<open>fmin_fabolas\<close>, or the
  \<open>KeyError\<close> of \<open>self.settings["marginalize_hypers"]\<close>.
\<close>

record fmin_fabolas_args =
  arg_s_min :: pynum
  arg_s_max :: pynum
  arg_n_init :: int
  arg_marginalize_hypers :: pynum

definition FabolasOptimizer_run :: "'b FabolasOptimizer \<Rightarrow> error + fmin_fabolas_args" where
  "FabolasOptimizer_run self =
     (case settings self ''marginalize_hypers'' of
        None \<Rightarrow> Inl KeyError
      | Some mh \<Rightarrow>
          Inr \<lparr>arg_s_min = s_min self, arg_s_max = s_max self,
               arg_n_init = FabolasOptimizer.n_init self, arg_marginalize_hypers = mh\<rparr>)"

subsection \<open>\<open>FabolasWithMUMBO\<close>\<close>

text \<open>
  \<open>emukit_fidelity\<close> stands for \<open>self.emukit_fidelity.bounds[0]\<close>, the two settings
  dictionaries for their two entries each.
\<close>

record 'b FabolasWithMUMBO = "'b optimizer" +
  info_sources :: "pyval list"
  emukit_fidelity :: "int \<times> int"
  n_init :: int
  optimizer_settings :: "pynum \<times> pynum"
  mumbo_settings :: "pynum \<times> pynum"

text \<open>
  Lines 95 to 109. The chain of \<open>isinstance\<close> tests has no \<open>else\<close>: for any other class
  the attribute \<open>info_sources\<close> is left unassigned, which is the result \<open>None\<close>. The
  number of fidelity values is formatted with \<open>%d\<close> and handed to \<open>np.linspace\<close>, which
  raises \<open>TypeError\<close> for a float and \<open>ValueError\<close> for a negative number.
\<close>

definition assign_info_sources :: "'b optimizer \<Rightarrow> error + pyval list option" where
  "assign_info_sources self =
     (if is_UniformFloat (main_fidelity self) then
        (case get_mandatory_optimizer_setting self (settings self) ''num_fidelity_values'' of
           Inl e \<Rightarrow> Inl e
         | Inr (PyFloat x) \<Rightarrow> Inl TypeError
         | Inr (PyInt num_fidelity_values) \<Rightarrow>
             if num_fidelity_values < 0 then Inl ValueError
             else Inr (Some (map (\<lambda>x. Num (PyFloat x))
                    (linspace (num_val (min_budget self)) (num_val (max_budget self))
                       (nat num_fidelity_values)))))
      else if is_Ordinal (main_fidelity self) then
        Inr (Some (seq_order (main_fidelity self)))
      else if is_Categorical (main_fidelity self) then
        Inr (Some (choices (main_fidelity self)))
      else if is_UniformInteger (main_fidelity self) then
        Inr (Some (map Num (arange (min_budget self) (py_add (max_budget self) (PyInt 1)))))
      else Inr None)"

text \<open>
  Lines 95 to 157. Line 115 reads \<open>self.info_sources.shape[0]\<close>, which raises
  \<open>AttributeError\<close> when no branch has assigned the attribute. The wrapper and the
  fidelity mapping are only stored; they are the functions below.
\<close>

definition FabolasWithMUMBO_init :: "'b optimizer \<Rightarrow> error + 'b FabolasWithMUMBO" where
  "FabolasWithMUMBO_init self =
     (case assign_info_sources self of
        Inl e \<Rightarrow> Inl e
      | Inr None \<Rightarrow> Inl AttributeError
      | Inr (Some sources) \<Rightarrow>
     (case read_n_init self of
        Inl e \<Rightarrow> Inl e
      | Inr n \<Rightarrow>
     (case get_mandatory_optimizer_setting self (settings self) ''update_interval'' of
        Inl e \<Rightarrow> Inl e
      | Inr update_interval \<Rightarrow>
     (case get_mandatory_optimizer_setting self (settings self) ''marginalize_hypers'' of
        Inl e \<Rightarrow> Inl e
      | Inr marginalize_hypers \<Rightarrow>
     (case get_mandatory_optimizer_setting self (settings self) ''num_mc_samples'' of
        Inl e \<Rightarrow> Inl e
      | Inr num_mc_samples \<Rightarrow>
     (case get_mandatory_optimizer_setting self (settings self) ''grid_size'' of
        Inl e \<Rightarrow> Inl e
      | Inr grid_size \<Rightarrow>
          Inr (optimizer.extend self
                 (FabolasWithMUMBO.fields sources
                    (information_source_bounds self (length sources))
                    n
                    (update_interval, marginalize_hypers)
                    (num_mc_samples, grid_size)))))))))"

text \<open>
  Line 116: \<open>lambda s: {self.main_fidelity.name: self.info_sources[int(s)-1]}\<close>.
\<close>

definition fidelity_emukit_to_cs :: "'b FabolasWithMUMBO \<Rightarrow> real \<Rightarrow> error + fidelity" where
  "fidelity_emukit_to_cs self s =
     (case py_index (info_sources self) (py_int (PyFloat s) - 1) of
        Inl e \<Rightarrow> Inl e
      | Inr v \<Rightarrow> Inr (name (main_fidelity self), v))"

text \<open>
  Lines 118 to 141. An array is one- or two-dimensional. The state of the loop holds the
  benchmark, the lists \<open>yvals\<close> and \<open>costs\<close>, and the arguments of the calls of
  \<open>objective_function\<close> made so far. Each pass of the loop reads \<open>inp[0, :-1]\<close> and
  \<open>inp[0, -1]\<close>; the latter raises \<open>IndexError\<close> when the array has no column.
\<close>

datatype ndarray = Array1 "real list" | Array2 "real list list"

record 'b wrapper_state =
  bench :: 'b
  yvals :: "real list"
  costs :: "real list"
  calls :: "(configuration \<times> fidelity) list"

definition make_config :: "'b FabolasWithMUMBO \<Rightarrow> real list \<Rightarrow> configuration" where
  "make_config self x = map (\<lambda>((name, func), i). (name, func i)) (zip (to_cs self) x)"

fun wrapper_loop ::
  "'b FabolasWithMUMBO \<Rightarrow> real list list \<Rightarrow> real list list \<Rightarrow> 'b wrapper_state
     \<Rightarrow> error option \<times> 'b wrapper_state" where
  "wrapper_loop self inp [] st = (None, st)"
| "wrapper_loop self inp (row_i # rest) st =
     (case inp of
        [] \<Rightarrow> (Some IndexError, st)
      | row0 # _ \<Rightarrow>
          if row0 = [] then (Some IndexError, st)
          else
            let x = butlast row0; s = last row0; config = make_config self x in
            case fidelity_emukit_to_cs self s of
              Inl e \<Rightarrow> (Some e, st)
            | Inr fidelity \<Rightarrow>
                let ((y, c), b) = objective_function self (bench st) config fidelity
                in wrapper_loop self inp rest
                     \<lparr>bench = b, yvals = yvals st @ [y], costs = costs st @ [c],
                      calls = calls st @ [(config, fidelity)]\<rparr>)"

definition wrapper ::
  "'b FabolasWithMUMBO \<Rightarrow> 'b \<Rightarrow> ndarray
     \<Rightarrow> (error + real list list \<times> real list list) \<times> 'b wrapper_state" where
  "wrapper self b arr =
     (let inp = (case arr of Array1 row \<Rightarrow> [row] | Array2 rows \<Rightarrow> rows);
          (err, st) = wrapper_loop self inp inp \<lparr>bench = b, yvals = [], costs = [], calls = []\<rparr>
      in case err of
           Some e \<Rightarrow> (Inl e, st)
         | None \<Rightarrow> (Inr (map (\<lambda>y. [y]) (yvals st), map (\<lambda>c. [c]) (costs st)), st))"

text \<open>
  Lines 173 to 182 of \<open>_setup_model\<close>. \<open>grid\<close> is what \<open>LatinDesign.get_samples\<close> has
  returned for \<open>n_init\<close>. \<open>np.tile\<close> raises \<open>ValueError\<close> for a negative number of
  repetitions, \<open>np.concatenate\<close> for arrays with different numbers of rows.
\<close>

definition sample_fidelities :: "'b FabolasWithMUMBO \<Rightarrow> error + int list" where
  "sample_fidelities self =
     (if length (info_sources self) = 0 then Inl ZeroDivisionError
      else
        let n_reps = FabolasWithMUMBO.n_init self div int (length (info_sources self)) + 1;
            (s_min, s_max) = emukit_fidelity self
        in if n_reps < 0 then Inl ValueError
           else Inr (py_take (FabolasWithMUMBO.n_init self)
                       (concat (replicate (nat n_reps) [s_min..s_max]))))"

definition X_init :: "'b FabolasWithMUMBO \<Rightarrow> real list list \<Rightarrow> error + real list list" where
  "X_init self grid =
     (case sample_fidelities self of
        Inl e \<Rightarrow> Inl e
      | Inr fidelities \<Rightarrow>
          if length grid \<noteq> length fidelities then Inl ValueError
          else Inr (map (\<lambda>(row, s). row @ [of_int s]) (zip grid fidelities)))"

subsection \<open>An example optimizer\<close>

text \<open>
  A benchmark with two hyperparameters, a float fidelity between 0 and 1, a training set
  of 100 rows and every mandatory setting present. The benchmark counts its evaluations
  and returns the count as function value, with cost 1.
\<close>

definition example_get_setting :: "(string \<rightharpoonup> pynum) \<Rightarrow> string \<Rightarrow> error + pynum" where
  "example_get_setting s k = (case s k of None \<Rightarrow> Inl ValueError | Some v \<Rightarrow> Inr v)"

definition example_optimizer :: "nat optimizer" where
  "example_optimizer =
     \<lparr>settings = [''init_samples_per_dim'' \<mapsto> PyInt 2, ''num_fidelity_values'' \<mapsto> PyInt 3,
                  ''update_interval'' \<mapsto> PyInt 1, ''marginalize_hypers'' \<mapsto> PyInt 0,
                  ''num_mc_samples'' \<mapsto> PyInt 10, ''grid_size'' \<mapsto> PyInt 100],
      get_mandatory_optimizer_setting = example_get_setting,
      main_fidelity = UniformFloatHyperparameter ''subsample'' (PyFloat 0) (PyFloat 1),
      min_budget = PyFloat 0,
      max_budget = PyFloat 1,
      dimensionality = 2,
      to_cs = [(''eta'', \<lambda>v. Num (PyFloat v)), (''max_depth'', \<lambda>v. Num (PyInt \<lfloor>v\<rfloor>))],
      has_X_train = True,
      has_y_train = True,
      y_train_rows = 100,
      information_source_bounds = (\<lambda>n. (1, int n)),
      objective_function = (\<lambda>b config fidelity. ((real b, 1), Suc b))\<rparr>"

text \<open>The same optimizer with a single fidelity value in its settings.\<close>

definition one_source_optimizer :: "nat optimizer" where
  "one_source_optimizer =
     example_optimizer\<lparr>settings := (settings example_optimizer)(''num_fidelity_values'' \<mapsto> PyInt 1)\<rparr>"

section \<open>Properties of the validation script\<close>

subsection \<open>The loop\<close>

text \<open>
  A key whose entry differs from \<open>-1234\<close> is never evaluated and keeps its entry.
\<close>

lemma validate_loop_keeps_validated:
  "validation_results st k = Some v \<Longrightarrow> v \<noteq> - 1234 \<Longrightarrow>
   validation_results (snd (validate_loop env rng cfgs st)) k = Some v \<and>
   filter (\<lambda>c. str env c = k) (evaluated (snd (validate_loop env rng cfgs st)))
     = filter (\<lambda>c. str env c = k) (evaluated st)"
proof (induction cfgs arbitrary: st)
  case Nil
  then show ?case by simp
next
  case (Cons c cfgs)
  show ?case
  proof (cases "validation_results st (str env c)")
    case None
    then show ?thesis using Cons.prems by simp
  next
    case (Some w)
    show ?thesis
    proof (cases "w \<noteq> - 1234")
      case True
      then show ?thesis using Some Cons.IH[OF Cons.prems] by simp
    next
      case False
      then have neq: "str env c \<noteq> k" using Some Cons.prems by auto
      obtain y b where ob: "objective_function_test env (benchmark st) c rng = (y, b)"
        by (cases "objective_function_test env (benchmark st) c rng")
      let ?st' = "\<lparr>validation_results = (validation_results st)(str env c \<mapsto> y),
                  benchmark = b, evaluated = evaluated st @ [c]\<rparr>"
      have "validation_results ?st' k = Some v" using neq Cons.prems by simp
      from Cons.IH[OF this Cons.prems(2)] show ?thesis
        using Some False ob neq by simp
    qed
  qed
qed

text \<open>
  If the benchmark never returns \<open>-1234\<close> for the configurations written \<open>k\<close>, the
  loop evaluates at most one of them: the first evaluation replaces the entry of \<open>k\<close>.
\<close>

lemma validate_loop_at_most_once:
  assumes "\<forall>b c. str env c = k \<longrightarrow> fst (objective_function_test env b c rng) \<noteq> - 1234"
  shows "length (filter (\<lambda>c. str env c = k) (evaluated (snd (validate_loop env rng cfgs st))))
     \<le> Suc (length (filter (\<lambda>c. str env c = k) (evaluated st)))"
proof (induction cfgs arbitrary: st)
  case Nil
  then show ?case by simp
next
  case (Cons c cfgs)
  show ?case
  proof (cases "validation_results st (str env c)")
    case None
    then show ?thesis by simp
  next
    case (Some w)
    show ?thesis
    proof (cases "w \<noteq> - 1234")
      case True
      then show ?thesis using Some Cons.IH[of st] by simp
    next
      case False
      obtain y b where ob: "objective_function_test env (benchmark st) c rng = (y, b)"
        by (cases "objective_function_test env (benchmark st) c rng")
      let ?st' = "\<lparr>validation_results = (validation_results st)(str env c \<mapsto> y),
                  benchmark = b, evaluated = evaluated st @ [c]\<rparr>"
      have step: "validate_loop env rng (c # cfgs) st = validate_loop env rng cfgs ?st'"
        using Some False ob by simp
      show ?thesis
      proof (cases "str env c = k")
        case True
        then have "y \<noteq> - 1234" using assms ob by (metis fst_conv)
        moreover have "validation_results ?st' k = Some y" using True by simp
        ultimately have "filter (\<lambda>c. str env c = k) (evaluated (snd (validate_loop env rng cfgs ?st')))
            = filter (\<lambda>c. str env c = k) (evaluated ?st')"
          using validate_loop_keeps_validated by blast
        then show ?thesis using step True by simp
      next
        case neq: False
        have "length (filter (\<lambda>c. str env c = k) (evaluated (snd (validate_loop env rng cfgs ?st'))))
              \<le> Suc (length (filter (\<lambda>c. str env c = k) (evaluated ?st')))"
          by (rule Cons.IH)
        then show ?thesis using step neq by simp
      qed
    qed
  qed
qed

text \<open>
  The lookup of line 126 cannot fail when every configuration of the list has an entry,
  and the loop changes the entries of the dictionary, never its keys.
\<close>

lemma validate_loop_no_KeyError:
  "\<forall>c \<in> set cfgs. str env c \<in> dom (validation_results st) \<Longrightarrow>
   fst (validate_loop env rng cfgs st) = None"
proof (induction cfgs arbitrary: st)
  case Nil
  then show ?case by simp
next
  case (Cons c cfgs)
  then obtain w where w: "validation_results st (str env c) = Some w" by auto
  show ?case
  proof (cases "w \<noteq> - 1234")
    case True
    then show ?thesis using w Cons by simp
  next
    case False
    obtain y b where ob: "objective_function_test env (benchmark st) c rng = (y, b)"
      by (cases "objective_function_test env (benchmark st) c rng")
    let ?st' = "\<lparr>validation_results = (validation_results st)(str env c \<mapsto> y),
                benchmark = b, evaluated = evaluated st @ [c]\<rparr>"
    have "\<forall>c \<in> set cfgs. str env c \<in> dom (validation_results ?st')"
      using Cons.prems by auto
    from Cons.IH[OF this] show ?thesis using w False ob by simp
  qed
qed

lemma validate_loop_dom:
  "dom (validation_results (snd (validate_loop env rng cfgs st))) = dom (validation_results st)"
proof (induction cfgs arbitrary: st)
  case Nil
  then show ?case by simp
next
  case (Cons c cfgs)
  show ?case
  proof (cases "validation_results st (str env c)")
    case None
    then show ?thesis by simp
  next
    case (Some w)
    show ?thesis
    proof (cases "w \<noteq> - 1234")
      case True
      then show ?thesis using Some Cons.IH[of st] by simp
    next
      case False
      obtain y b where ob: "objective_function_test env (benchmark st) c rng = (y, b)"
        by (cases "objective_function_test env (benchmark st) c rng")
      let ?st' = "\<lparr>validation_results = (validation_results st)(str env c \<mapsto> y),
                  benchmark = b, evaluated = evaluated st @ [c]\<rparr>"
      have d: "dom (validation_results ?st') = dom (validation_results st)"
        using Some by auto
      have step: "validate_loop env rng (c # cfgs) st = validate_loop env rng cfgs ?st'"
        using Some False ob by simp
      show ?thesis by (simp only: step Cons.IH[of ?st'] d)
    qed
  qed
qed

text \<open>
  Evaluations are only added, and a configuration whose entry is \<open>-1234\<close> when the loop
  reaches it is evaluated.
\<close>

lemma validate_loop_extends:
  "\<exists>ys. evaluated (snd (validate_loop env rng cfgs st)) = evaluated st @ ys"
proof (induction cfgs arbitrary: st)
  case Nil
  then show ?case by simp
next
  case (Cons c cfgs)
  show ?case
  proof (cases "validation_results st (str env c)")
    case None
    then show ?thesis by simp
  next
    case (Some w)
    show ?thesis
    proof (cases "w \<noteq> - 1234")
      case True
      then show ?thesis using Some Cons.IH[of st] by simp
    next
      case False
      obtain y b where ob: "objective_function_test env (benchmark st) c rng = (y, b)"
        by (cases "objective_function_test env (benchmark st) c rng")
      let ?st' = "\<lparr>validation_results = (validation_results st)(str env c \<mapsto> y),
                  benchmark = b, evaluated = evaluated st @ [c]\<rparr>"
      from Cons.IH[of ?st'] obtain ys where
        "evaluated (snd (validate_loop env rng cfgs ?st')) = evaluated ?st' @ ys" by blast
      then show ?thesis using Some False ob by simp
    qed
  qed
qed

lemma validate_loop_evaluates_pending:
  "c \<in> set cfgs \<Longrightarrow> validation_results st (str env c) = Some (- 1234) \<Longrightarrow>
   \<forall>c \<in> set cfgs. str env c \<in> dom (validation_results st) \<Longrightarrow>
   length (filter (\<lambda>c'. str env c' = str env c) (evaluated st))
     < length (filter (\<lambda>c'. str env c' = str env c) (evaluated (snd (validate_loop env rng cfgs st))))"
proof (induction cfgs arbitrary: st)
  case Nil
  then show ?case by simp
next
  case (Cons a cfgs)
  let ?k = "str env c"
  from Cons.prems(3) obtain w where w: "validation_results st (str env a) = Some w" by auto
  obtain y b where ob: "objective_function_test env (benchmark st) a rng = (y, b)"
    by (cases "objective_function_test env (benchmark st) a rng")
  let ?st' = "\<lparr>validation_results = (validation_results st)(str env a \<mapsto> y),
              benchmark = b, evaluated = evaluated st @ [a]\<rparr>"
  have dom': "\<forall>c \<in> set cfgs. str env c \<in> dom (validation_results ?st')"
    using Cons.prems(3) by auto
  show ?case
  proof (cases "str env a = ?k")
    case True
    then have step: "validate_loop env rng (a # cfgs) st = validate_loop env rng cfgs ?st'"
      using Cons.prems(2) ob by simp
    obtain ys where "evaluated (snd (validate_loop env rng cfgs ?st')) = evaluated ?st' @ ys"
      using validate_loop_extends by blast
    then show ?thesis using step True by simp
  next
    case False
    then have cin: "c \<in> set cfgs" using Cons.prems(1) by auto
    show ?thesis
    proof (cases "w \<noteq> - 1234")
      case True
      have "\<forall>c \<in> set cfgs. str env c \<in> dom (validation_results st)" using Cons.prems(3) by simp
      from Cons.IH[OF cin Cons.prems(2) this] show ?thesis using w True by simp
    next
      case eq: False
      have "validation_results ?st' ?k = Some (- 1234)" using False Cons.prems(2) by simp
      from Cons.IH[OF cin this dom'] show ?thesis using w eq ob False by simp
    qed
  qed
qed

lemma validate_loop_ignores_history:
  "validate_loop (env\<lparr>load_validated_configurations := history\<rparr>) rng cfgs st
     = validate_loop env rng cfgs st"
  by (induction cfgs arbitrary: st) (simp_all add: Let_def split: option.splits prod.splits)

subsection \<open>The initial dictionary and the trace\<close>

lemma initial_results_fold:
  "fold (\<lambda>c m. m(s c \<mapsto> - 1234)) cfgs m0 k
     = (if k \<in> s ` set cfgs then Some (- 1234 :: real) else m0 k)"
  by (induction cfgs arbitrary: m0) auto

lemma initial_results_apply:
  "initial_results s cfgs k = (if k \<in> s ` set cfgs then Some (- 1234) else None)"
  by (simp add: initial_results_def initial_results_fold)

lemma dom_initial_results: "dom (initial_results s cfgs) = s ` set cfgs"
  by (auto simp: initial_results_apply dom_def)

lemma merged_results_covers:
  "\<forall>c \<in> set (trajectory_configurations env output_dir).
     str env c \<in> dom (merged_results env output_dir recompute_all)"
  by (auto simp: merged_results_def dom_initial_results)

lemma evaluations_of_append:
  "evaluations_of s k (xs @ ys) = evaluations_of s k xs @ evaluations_of s k ys"
  by (simp add: evaluations_of_def)

lemma evaluations_of_Evaluate:
  "evaluations_of s k (map Evaluate cs) = filter (\<lambda>c. s c = k) cs"
  by (induction cs) (auto simp: evaluations_of_def)

lemma evaluations_of_WriteTrajectory:
  "evaluations_of s k (map (\<lambda>(t, p). WriteTrajectory p) zs) = []"
  by (induction zs) (auto simp: evaluations_of_def)

text \<open>
  With an existing directory the run returns 1, and its dictionary and its evaluations are
  those of the loop started on the merged dictionary.
\<close>

lemma validate_benchmark_run:
  assumes "is_dir env output_dir"
  shows "retval (validate_benchmark env bname output_dir rng recompute_all) = Inr 1"
    and "results (validate_benchmark env bname output_dir rng recompute_all)
           = validation_results (snd (validate_loop env rng
               (trajectory_configurations env output_dir)
               (loop_start env output_dir rng recompute_all)))"
    and "evaluations_of (str env) k (events (validate_benchmark env bname output_dir rng recompute_all))
           = filter (\<lambda>c. str env c = k) (evaluated (snd (validate_loop env rng
               (trajectory_configurations env output_dir)
               (loop_start env output_dir rng recompute_all))))"
proof -
  let ?cfgs = "trajectory_configurations env output_dir"
  let ?st0 = "loop_start env output_dir rng recompute_all"
  obtain err st where l: "validate_loop env rng ?cfgs ?st0 = (err, st)"
    by (cases "validate_loop env rng ?cfgs ?st0")
  have "\<forall>c \<in> set ?cfgs. str env c \<in> dom (validation_results ?st0)"
    using merged_results_covers by (simp add: loop_start_def)
  then have "fst (validate_loop env rng ?cfgs ?st0) = None"
    by (rule validate_loop_no_KeyError)
  then have err: "err = None" using l by simp
  have l': "validate_loop env rng
           (get_unvalidated_configurations env (load_trajectories env (rglob env output_dir)))
           \<lparr>validation_results =
              (if \<not> recompute_all
               then initial_results (str env)
                      (get_unvalidated_configurations env (load_trajectories env (rglob env output_dir)))
                    ++ load_validated_configurations env output_dir
               else initial_results (str env)
                      (get_unvalidated_configurations env (load_trajectories env (rglob env output_dir)))),
            benchmark = benchmark_obj env rng, evaluated = []\<rparr> = (None, st)"
    using l err
    by (cases recompute_all)
      (simp_all add: loop_start_def merged_results_def trajectory_configurations_def)
  show "retval (validate_benchmark env bname output_dir rng recompute_all) = Inr 1"
    using assms l' by (simp add: validate_benchmark_def Let_def)
  show "results (validate_benchmark env bname output_dir rng recompute_all)
           = validation_results (snd (validate_loop env rng ?cfgs ?st0))"
    using assms l l' by (simp add: validate_benchmark_def Let_def)
  have ev: "events (validate_benchmark env bname output_dir rng recompute_all)
      = [Glob output_dir, LoadTrajectories (rglob env output_dir),
         LoadValidated output_dir, LoadBenchmark bname]
        @ map Evaluate (evaluated st) @ [CloseBenchmark]
        @ map (\<lambda>(t, p). WriteTrajectory p)
            (zip (load_trajectories env (rglob env output_dir)) (rglob env output_dir))"
    using assms l' by (simp add: validate_benchmark_def Let_def)
  have "evaluations_of (str env) k (events (validate_benchmark env bname output_dir rng recompute_all))
      = filter (\<lambda>c. str env c = k) (evaluated st)"
    by (simp only: ev evaluations_of_append evaluations_of_Evaluate
        evaluations_of_WriteTrajectory)
      (simp add: evaluations_of_def)
  then show "evaluations_of (str env) k
        (events (validate_benchmark env bname output_dir rng recompute_all))
      = filter (\<lambda>c. str env c = k) (evaluated (snd (validate_loop env rng ?cfgs ?st0)))"
    using l by simp
qed

text \<open>The example run, evaluated.\<close>

lemma example_configurations:
  "trajectory_configurations example_env ''out'' = [''x'', ''y'', ''x'']"
  by (simp add: trajectory_configurations_def example_env_def)

lemma example_run:
  "validate_benchmark example_env ''xgboost'' ''out'' 0 False =
     \<lparr>retval = Inr 1, results = [''x'' \<mapsto> 1, ''y'' \<mapsto> 1 / 2],
      events = [Glob ''out'',
        LoadTrajectories [''out/run1/hpolib_trajectory.txt'', ''out/run2/hpolib_trajectory.txt''],
        LoadValidated ''out'', LoadBenchmark ''xgboost'', Evaluate ''x'', CloseBenchmark,
        WriteTrajectory ''out/run1/hpolib_trajectory.txt'',
        WriteTrajectory ''out/run2/hpolib_trajectory.txt'']\<rparr>"
  by (simp add: validate_benchmark_def example_env_def initial_results_def Let_def fun_eq_iff)

subsection \<open>A missing output directory\<close>

text \<open>
  Claim C7. When \<open>output_dir\<close> is not an existing directory, the assertion of line 80
  fails: \<open>validate_benchmark\<close> raises \<open>AssertionError\<close> and the trace of the run is
  empty, so no trajectory was searched or loaded, no run history read, no benchmark
  instantiated, no configuration evaluated and no trajectory written.
\<close>

theorem validate_benchmark_asserts_directory:
  "\<not> is_dir env output_dir \<Longrightarrow>
   validate_benchmark env bname output_dir rng recompute_all
     = \<lparr>retval = Inl AssertionError, results = Map.empty, events = []\<rparr>"
  by (simp add: validate_benchmark_def)

theorem validate_benchmark_asserts_directory_witness:
  "\<not> is_dir example_env ''missing'' \<and>
   validate_benchmark example_env ''xgboost'' ''missing'' 0 False
     = \<lparr>retval = Inl AssertionError, results = Map.empty, events = []\<rparr>"
proof -
  have h: "\<not> is_dir example_env ''missing''" by (simp add: example_env_def)
  show ?thesis
    using h validate_benchmark_asserts_directory [OF h, of "''xgboost''" 0 False] by simp
qed

subsection \<open>One dictionary, one evaluation per key\<close>

text \<open>
  Claim C1, at an input where it fails: the configuration \<open>x\<close> occurs in both
  trajectory files and the benchmark returns the function value \<open>-1234\<close>. The first
  evaluation stores \<open>-1234\<close>, which the test of line 126 reads as not yet validated, so
  \<open>x\<close> is evaluated a second time in the same run.
\<close>

theorem validate_benchmark_twice_counterexample:
  "evaluations_of (str sentinel_env) ''x''
     (events (validate_benchmark sentinel_env ''xgboost'' ''out'' 0 False)) = [''x'', ''x'']"
  by (simp add: validate_benchmark_def sentinel_env_def example_env_def initial_results_def
      evaluations_of_def Let_def)

text \<open>
  Claim C1, amended. With an existing directory the run returns 1; the keys of the
  dictionary it ends with are the string representations of the configurations of all
  loaded trajectories (joined, unless \<open>recompute_all\<close> is set, by the keys of the run
  history); and of the configurations with string representation \<open>k\<close> at most one is
  evaluated, provided \<open>objective_function_test\<close> never returns \<open>-1234\<close> for them.
\<close>

theorem validate_benchmark_merges_and_evaluates_once:
  assumes "is_dir env output_dir"
  shows "retval (validate_benchmark env bname output_dir rng recompute_all) = Inr 1 \<and>
    dom (results (validate_benchmark env bname output_dir rng recompute_all))
      = str env ` set (trajectory_configurations env output_dir)
        \<union> (if recompute_all then {} else dom (load_validated_configurations env output_dir)) \<and>
    (\<forall>k. (\<forall>b c. str env c = k \<longrightarrow> fst (objective_function_test env b c rng) \<noteq> - 1234) \<longrightarrow>
       length (evaluations_of (str env) k
         (events (validate_benchmark env bname output_dir rng recompute_all))) \<le> 1)"
proof (intro conjI allI impI)
  show "retval (validate_benchmark env bname output_dir rng recompute_all) = Inr 1"
    using assms by (rule validate_benchmark_run(1))
next
  have "dom (results (validate_benchmark env bname output_dir rng recompute_all))
      = dom (merged_results env output_dir recompute_all)"
    by (simp add: validate_benchmark_run(2)[OF assms] validate_loop_dom loop_start_def)
  also have "\<dots> = str env ` set (trajectory_configurations env output_dir)
        \<union> (if recompute_all then {} else dom (load_validated_configurations env output_dir))"
    by (auto simp: merged_results_def dom_initial_results)
  finally show "dom (results (validate_benchmark env bname output_dir rng recompute_all))
      = str env ` set (trajectory_configurations env output_dir)
        \<union> (if recompute_all then {} else dom (load_validated_configurations env output_dir))" .
next
  fix k
  assume "\<forall>b c. str env c = k \<longrightarrow> fst (objective_function_test env b c rng) \<noteq> - 1234"
  then have "length (filter (\<lambda>c. str env c = k) (evaluated (snd (validate_loop env rng
               (trajectory_configurations env output_dir)
               (loop_start env output_dir rng recompute_all)))))
      \<le> Suc (length (filter (\<lambda>c. str env c = k)
                 (evaluated (loop_start env output_dir rng recompute_all))))"
    by (rule validate_loop_at_most_once)
  then show "length (evaluations_of (str env) k
         (events (validate_benchmark env bname output_dir rng recompute_all))) \<le> 1"
    by (simp add: validate_benchmark_run(3)[OF assms] loop_start_def)
qed

theorem validate_benchmark_merges_and_evaluates_once_witness:
  "is_dir example_env ''out'' \<and>
   dom (results (validate_benchmark example_env ''xgboost'' ''out'' 0 False)) = {''x'', ''y''} \<and>
   length (evaluations_of (str example_env) ''x''
     (events (validate_benchmark example_env ''xgboost'' ''out'' 0 False))) \<le> 1"
proof -
  have h: "is_dir example_env ''out''" by (simp add: example_env_def)
  have o: "\<forall>b c. str example_env c = ''x'' \<longrightarrow>
      fst (objective_function_test example_env b c 0) \<noteq> - 1234"
    by (simp add: example_env_def)
  have d: "str example_env ` set (trajectory_configurations example_env ''out'')
        \<union> (if False then {} else dom (load_validated_configurations example_env ''out''))
      = {''x'', ''y''}"
  proof -
    have "dom (load_validated_configurations example_env ''out'') = {''y''}"
      by (simp add: example_env_def)
    moreover have "str example_env ` set [''x'', ''y'', ''x''] = {''x'', ''y''}"
      by (auto simp: example_env_def)
    ultimately show ?thesis by (auto simp: example_configurations)
  qed
  show ?thesis
    using h o d validate_benchmark_merges_and_evaluates_once [OF h, of "''xgboost''" 0 False]
    by simp
qed

subsection \<open>The run history and \<open>recompute_all\<close>\<close>

text \<open>
  Claim C3, at an input where it fails: \<open>recompute_all\<close> is false and the run history
  holds a result for \<open>y\<close>, the value \<open>-1234\<close>; \<open>y\<close> is evaluated all the same.
\<close>

theorem validate_benchmark_skip_counterexample:
  "load_validated_configurations stale_env ''out'' ''y'' = Some (- 1234) \<and>
   evaluations_of (str stale_env) ''y''
     (events (validate_benchmark stale_env ''xgboost'' ''out'' 0 False)) = [''y'']"
  by (simp add: validate_benchmark_def stale_env_def example_env_def initial_results_def
      evaluations_of_def Let_def)

text \<open>
  Claim C3, amended. Without \<open>recompute_all\<close>, no configuration is evaluated whose
  string representation has a result other than \<open>-1234\<close> in the run history. With
  \<open>recompute_all\<close> the run does not depend on the run history, and for every
  configuration of the trajectories a configuration with its string representation is
  evaluated.
\<close>

theorem validate_benchmark_recompute_all:
  "(\<forall>k v. load_validated_configurations env output_dir k = Some v \<longrightarrow> v \<noteq> - 1234 \<longrightarrow>
      evaluations_of (str env) k
        (events (validate_benchmark env bname output_dir rng False)) = []) \<and>
   validate_benchmark (env\<lparr>load_validated_configurations := history\<rparr>) bname output_dir rng True
     = validate_benchmark env bname output_dir rng True \<and>
   (is_dir env output_dir \<longrightarrow>
      (\<forall>c \<in> set (trajectory_configurations env output_dir).
         evaluations_of (str env) (str env c)
           (events (validate_benchmark env bname output_dir rng True)) \<noteq> []))"
proof (intro conjI allI impI ballI)
  fix k v
  assume kv: "load_validated_configurations env output_dir k = Some v" and v: "v \<noteq> - 1234"
  show "evaluations_of (str env) k (events (validate_benchmark env bname output_dir rng False)) = []"
  proof (cases "is_dir env output_dir")
    case False
    then show ?thesis by (simp add: validate_benchmark_def evaluations_of_def)
  next
    case True
    have "validation_results (loop_start env output_dir rng False) k = Some v"
      using kv by (simp add: loop_start_def merged_results_def map_add_Some_iff)
    from validate_loop_keeps_validated[where env = env and rng = rng
        and cfgs = "trajectory_configurations env output_dir", OF this v]
    show ?thesis by (simp add: validate_benchmark_run(3)[OF True] loop_start_def)
  qed
next
  show "validate_benchmark (env\<lparr>load_validated_configurations := history\<rparr>) bname output_dir rng True
     = validate_benchmark env bname output_dir rng True"
    by (simp add: validate_benchmark_def validate_loop_ignores_history)
next
  fix c
  assume d: "is_dir env output_dir" and c: "c \<in> set (trajectory_configurations env output_dir)"
  let ?st0 = "loop_start env output_dir rng True"
  have p: "validation_results ?st0 (str env c) = Some (- 1234)"
    using c by (simp add: loop_start_def merged_results_def initial_results_apply)
  have "\<forall>c \<in> set (trajectory_configurations env output_dir).
          str env c \<in> dom (validation_results ?st0)"
    using merged_results_covers by (simp add: loop_start_def)
  from validate_loop_evaluates_pending[where rng = rng, OF c p this]
  have "filter (\<lambda>c'. str env c' = str env c) (evaluated (snd (validate_loop env rng
           (trajectory_configurations env output_dir) ?st0))) \<noteq> []"
    by auto
  then show "evaluations_of (str env) (str env c)
           (events (validate_benchmark env bname output_dir rng True)) \<noteq> []"
    by (simp add: validate_benchmark_run(3)[OF d])
qed

theorem validate_benchmark_recompute_all_witness:
  "load_validated_configurations example_env ''out'' ''y'' = Some (1 / 2) \<and>
   (1 / 2 :: real) \<noteq> - 1234 \<and>
   evaluations_of (str example_env) ''y''
     (events (validate_benchmark example_env ''xgboost'' ''out'' 0 False)) = [] \<and>
   is_dir example_env ''out'' \<and>
   ''x'' \<in> set (trajectory_configurations example_env ''out'') \<and>
   evaluations_of (str example_env) (str example_env ''x'')
     (events (validate_benchmark example_env ''xgboost'' ''out'' 0 True)) \<noteq> []"
proof -
  have a: "load_validated_configurations example_env ''out'' ''y'' = Some (1 / 2)"
    by (simp add: example_env_def)
  have b: "(1 / 2 :: real) \<noteq> - 1234" by simp
  have c: "is_dir example_env ''out''" by (simp add: example_env_def)
  have d: "''x'' \<in> set (trajectory_configurations example_env ''out'')"
    by (simp add: example_configurations)
  show ?thesis
    using a b c d
      validate_benchmark_recompute_all [where env = example_env and output_dir = "''out''"
        and bname = "''xgboost''" and rng = 0]
    by blast
qed

subsection \<open>The value \<open>-1234\<close>\<close>

text \<open>
  Claim C8, at an input where it fails: the run history holds \<open>-1234\<close> for \<open>z\<close>, which
  occurs in no trajectory. The loop of line 121 runs over the configurations of the
  trajectories only, so the entry of \<open>z\<close> is never looked up and \<open>z\<close> is not
  evaluated.
\<close>

theorem validate_benchmark_history_only_counterexample:
  "load_validated_configurations history_only_env ''out'' ''z'' = Some (- 1234) \<and>
   ''z'' \<notin> set (trajectory_configurations history_only_env ''out'') \<and>
   evaluations_of (str history_only_env) ''z''
     (events (validate_benchmark history_only_env ''xgboost'' ''out'' 0 False)) = []"
  by (simp add: validate_benchmark_def trajectory_configurations_def history_only_env_def
      example_env_def initial_results_def evaluations_of_def Let_def)

text \<open>
  Claim C8, amended. With an existing output directory, every configuration of the
  trajectories starts with the entry \<open>-1234\<close>. When the run history holds \<open>-1234\<close> for
  such a configuration and \<open>recompute_all\<close> is false, the merged entry is \<open>-1234\<close>
  again, the test of line 126 does not skip it, and a configuration with that string
  representation is evaluated.
\<close>

theorem validate_benchmark_sentinel:
  assumes "is_dir env output_dir"
    and "c \<in> set (trajectory_configurations env output_dir)"
    and "load_validated_configurations env output_dir (str env c) = Some (- 1234)"
  shows "initial_results (str env) (trajectory_configurations env output_dir) (str env c)
           = Some (- 1234) \<and>
         merged_results env output_dir False (str env c) = Some (- 1234) \<and>
         evaluations_of (str env) (str env c)
           (events (validate_benchmark env bname output_dir rng False)) \<noteq> []"
proof (intro conjI)
  show i: "initial_results (str env) (trajectory_configurations env output_dir) (str env c)
           = Some (- 1234)"
    using assms(2) by (simp add: initial_results_apply)
  show m: "merged_results env output_dir False (str env c) = Some (- 1234)"
    using assms(3) by (simp add: merged_results_def)
  let ?st0 = "loop_start env output_dir rng False"
  have p: "validation_results ?st0 (str env c) = Some (- 1234)"
    using m by (simp add: loop_start_def)
  have "\<forall>c \<in> set (trajectory_configurations env output_dir).
          str env c \<in> dom (validation_results ?st0)"
    using merged_results_covers by (simp add: loop_start_def)
  from validate_loop_evaluates_pending[where rng = rng, OF assms(2) p this]
  have "filter (\<lambda>c'. str env c' = str env c) (evaluated (snd (validate_loop env rng
           (trajectory_configurations env output_dir) ?st0))) \<noteq> []"
    by auto
  then show "evaluations_of (str env) (str env c)
           (events (validate_benchmark env bname output_dir rng False)) \<noteq> []"
    by (simp add: validate_benchmark_run(3)[OF assms(1)])
qed

theorem validate_benchmark_sentinel_witness:
  "is_dir stale_env ''out'' \<and>
   ''y'' \<in> set (trajectory_configurations stale_env ''out'') \<and>
   load_validated_configurations stale_env ''out'' (str stale_env ''y'') = Some (- 1234) \<and>
   evaluations_of (str stale_env) (str stale_env ''y'')
     (events (validate_benchmark stale_env ''xgboost'' ''out'' 0 False)) \<noteq> []"
proof -
  have a: "is_dir stale_env ''out''" by (simp add: stale_env_def example_env_def)
  have b: "''y'' \<in> set (trajectory_configurations stale_env ''out'')"
    by (simp add: trajectory_configurations_def stale_env_def example_env_def)
  have c: "load_validated_configurations stale_env ''out'' (str stale_env ''y'') = Some (- 1234)"
    by (simp add: stale_env_def example_env_def)
  show ?thesis
    using a b c validate_benchmark_sentinel [OF a b c, of "''xgboost''" 0] by simp
qed

section \<open>Properties of the optimizers\<close>

subsection \<open>Numbers and arrays\<close>

lemma num_val_py_max: "num_val (py_max a b) = max (num_val a) (num_val b)"
  by (simp add: py_max_def max_def)

lemma length_linspace: "length (linspace a b n) = n"
  by (simp add: linspace_def)

lemma nth_linspace:
  "2 \<le> n \<Longrightarrow> i < n \<Longrightarrow> linspace a b n ! i = a + real i * ((b - a) / real (n - 1))"
  by (simp add: linspace_def)

lemma hd_linspace: "2 \<le> n \<Longrightarrow> hd (linspace a b n) = a"
proof -
  assume n: "2 \<le> n"
  then have ne: "linspace a b n \<noteq> []" using length_linspace[of a b n] by auto
  have "hd (linspace a b n) = linspace a b n ! 0" using hd_conv_nth[OF ne] .
  also have "\<dots> = a" using n by (simp add: nth_linspace)
  finally show ?thesis .
qed

lemma last_linspace: "2 \<le> n \<Longrightarrow> last (linspace a b n) = b"
proof -
  assume n: "2 \<le> n"
  then have ne: "linspace a b n \<noteq> []" using length_linspace[of a b n] by auto
  have "last (linspace a b n) = linspace a b n ! (n - 1)"
    using last_conv_nth[OF ne] by (simp add: length_linspace)
  also have "\<dots> = a + real (n - 1) * ((b - a) / real (n - 1))"
    using n by (simp add: nth_linspace)
  also have "\<dots> = b" using n by simp
  finally show ?thesis .
qed

lemma length_concat_replicate: "length (concat (replicate k xs)) = k * length xs"
  by (induction k) simp_all

lemma nth_concat_replicate:
  "i < k * length xs \<Longrightarrow> concat (replicate k xs) ! i = xs ! (i mod length xs)"
proof (induction k arbitrary: i)
  case 0
  then show ?case by simp
next
  case (Suc k)
  show ?case
  proof (cases "i < length xs")
    case True
    then show ?thesis by (simp add: nth_append)
  next
    case False
    then have "i - length xs < k * length xs" using Suc.prems by simp
    then have "concat (replicate k xs) ! (i - length xs) = xs ! ((i - length xs) mod length xs)"
      by (rule Suc.IH)
    moreover have "(i - length xs) mod length xs = i mod length xs"
      using False by (simp add: le_mod_geq)
    ultimately show ?thesis using False by (simp add: nth_append)
  qed
qed

text \<open>
  Tiling a range of \<open>w\<close> values \<open>n div m + 1\<close> times yields more than \<open>n\<close> values when
  the range is at least as long as the \<open>m\<close> sources.
\<close>

lemma tile_covers:
  fixes n w m :: int
  assumes "0 \<le> n" and "0 < m" and "m \<le> w"
  shows "nat n < nat (n div m + 1) * nat w"
proof -
  have d: "0 \<le> n div m" using assms(1,2) by (simp add: pos_imp_zdiv_nonneg_iff)
  have "n mod m < m" using assms(2) by simp
  moreover have "n = m * (n div m) + n mod m" by simp
  ultimately have "n < m * (n div m) + m" by linarith
  also have "\<dots> = (n div m + 1) * m" by (simp add: algebra_simps)
  also have "\<dots> \<le> (n div m + 1) * w"
    using d assms(3) by (intro mult_left_mono) simp_all
  finally have "n < (n div m + 1) * w" .
  then have "nat n < nat ((n div m + 1) * w)" using assms(1) by simp
  also have "\<dots> = nat (n div m + 1) * nat w"
    using d by (simp add: nat_mult_distrib)
  finally show ?thesis .
qed

subsection \<open>The constructors on the example\<close>

lemma example_read_n_init: "read_n_init example_optimizer = Inr 4"
  by (simp add: read_n_init_def example_optimizer_def example_get_setting_def)

lemma example_FabolasOptimizer_init:
  "FabolasOptimizer_init example_optimizer
     = Inr (optimizer.extend example_optimizer (FabolasOptimizer.fields (PyInt 1) (PyFloat 100) 4))"
  by (simp add: FabolasOptimizer_init_def example_read_n_init py_max_def)
    (simp add: example_optimizer_def)

lemma FabolasWithMUMBO_init_fields:
  assumes "FabolasWithMUMBO_init self = Inr opt"
  shows "assign_info_sources self = Inr (Some (info_sources opt))"
    and "read_n_init self = Inr (FabolasWithMUMBO.n_init opt)"
    and "emukit_fidelity opt = information_source_bounds self (length (info_sources opt))"
    and "main_fidelity opt = main_fidelity self"
    and "to_cs opt = to_cs self"
    and "objective_function opt = objective_function self"
  using assms
  by (auto simp: FabolasWithMUMBO_init_def optimizer.defs FabolasWithMUMBO.defs
      split: sum.splits option.splits)

lemma example_FabolasWithMUMBO_init:
  "FabolasWithMUMBO_init example_optimizer
     = Inr (optimizer.extend example_optimizer
         (FabolasWithMUMBO.fields [Num (PyFloat 0), Num (PyFloat (1 / 2)), Num (PyFloat 1)]
            (1, 3) 4 (PyInt 1, PyInt 0) (PyInt 10, PyInt 100)))"
proof -
  have a: "assign_info_sources example_optimizer
      = Inr (Some [Num (PyFloat 0), Num (PyFloat (1 / 2)), Num (PyFloat 1)])"
    by (simp add: assign_info_sources_def example_optimizer_def example_get_setting_def
        linspace_def upt_rec)
  have s: "get_mandatory_optimizer_setting example_optimizer (settings example_optimizer) k
      = example_get_setting (settings example_optimizer) k" for k
    by (simp add: example_optimizer_def)
  have b: "information_source_bounds example_optimizer 3 = (1, 3)"
    by (simp add: example_optimizer_def)
  show ?thesis
    by (simp add: FabolasWithMUMBO_init_def a example_read_n_init s b)
      (simp add: example_optimizer_def example_get_setting_def)
qed

subsection \<open>The smallest subsample size of \<open>FabolasOptimizer\<close>\<close>

text \<open>
  Claim C10. When the constructor of \<open>FabolasOptimizer\<close> succeeds, \<open>s_min\<close> is at least
  1: for a uniform integer fidelity it is \<open>max(lower, 1)\<close>; otherwise the fidelity is a
  uniform float whose bounds lie between 0 and 1, and \<open>s_min\<close> is \<open>max\<close> of 1 and
  \<open>lower\<close> times the number of training rows. \<open>run\<close> hands this \<open>s_min\<close> to
  \<open>fmin_fabolas\<close>.
\<close>

theorem FabolasOptimizer_s_min_at_least_one:
  assumes "FabolasOptimizer_init self = Inr opt"
  shows "1 \<le> num_val (s_min opt) \<and>
    (is_UniformInteger (main_fidelity self) \<longrightarrow>
       s_min opt = py_max (lower (main_fidelity self)) (PyInt 1)) \<and>
    (\<not> is_UniformInteger (main_fidelity self) \<longrightarrow>
       is_UniformFloat (main_fidelity self) \<and>
       0 \<le> num_val (lower (main_fidelity self)) \<and> num_val (upper (main_fidelity self)) \<le> 1 \<and>
       s_min opt = py_max (py_mul (lower (main_fidelity self)) (PyInt (int (y_train_rows self))))
                     (PyInt 1)) \<and>
    (\<forall>args. FabolasOptimizer_run opt = Inr args \<longrightarrow>
       arg_s_min args = s_min opt \<and> 1 \<le> num_val (arg_s_min args))"
proof -
  have s: "(is_UniformInteger (main_fidelity self) \<longrightarrow>
       s_min opt = py_max (lower (main_fidelity self)) (PyInt 1)) \<and>
    (\<not> is_UniformInteger (main_fidelity self) \<longrightarrow>
       is_UniformFloat (main_fidelity self) \<and>
       0 \<le> num_val (lower (main_fidelity self)) \<and> num_val (upper (main_fidelity self)) \<le> 1 \<and>
       s_min opt = py_max (py_mul (lower (main_fidelity self)) (PyInt (int (y_train_rows self))))
                     (PyInt 1))"
    using assms
    by (auto simp: FabolasOptimizer_init_def optimizer.defs FabolasOptimizer.defs
        split: if_splits sum.splits)
  then have one: "1 \<le> num_val (s_min opt)"
    by (cases "is_UniformInteger (main_fidelity self)") (simp_all add: num_val_py_max)
  have "\<forall>args. FabolasOptimizer_run opt = Inr args \<longrightarrow>
       arg_s_min args = s_min opt \<and> 1 \<le> num_val (arg_s_min args)"
    using one by (auto simp: FabolasOptimizer_run_def split: option.splits)
  with s one show ?thesis by blast
qed

theorem FabolasOptimizer_s_min_at_least_one_witness:
  "FabolasOptimizer_init example_optimizer
     = Inr (optimizer.extend example_optimizer (FabolasOptimizer.fields (PyInt 1) (PyFloat 100) 4)) \<and>
   lower (main_fidelity example_optimizer) = PyFloat 0 \<and>
   s_min (optimizer.extend example_optimizer (FabolasOptimizer.fields (PyInt 1) (PyFloat 100) 4))
     = PyInt 1 \<and>
   1 \<le> num_val
     (s_min (optimizer.extend example_optimizer (FabolasOptimizer.fields (PyInt 1) (PyFloat 100) 4)))"
proof -
  have l: "lower (main_fidelity example_optimizer) = PyFloat 0"
    by (simp add: example_optimizer_def)
  have v: "s_min (optimizer.extend example_optimizer
             (FabolasOptimizer.fields (PyInt 1) (PyFloat 100) 4)) = PyInt 1"
    by (simp add: optimizer.defs FabolasOptimizer.defs)
  show ?thesis
    using l v example_FabolasOptimizer_init
      FabolasOptimizer_s_min_at_least_one [OF example_FabolasOptimizer_init]
    by simp
qed

subsection \<open>Fidelity types that the constructors do not support\<close>

text \<open>
  The constructor of \<open>FabolasOptimizer\<close> checks the type itself: a main fidelity that is
  neither a uniform integer nor a uniform float reaches the \<open>else\<close> of line 52 and the
  \<open>RuntimeError\<close> of line 53, which names the type found. The exception leaves the
  constructor and no optimizer is returned.
\<close>

lemma FabolasOptimizer_rejects_other_types:
  "\<not> is_UniformInteger (main_fidelity self) \<Longrightarrow> \<not> is_UniformFloat (main_fidelity self) \<Longrightarrow>
   FabolasOptimizer_init self = Inl RuntimeError"
  by (simp add: FabolasOptimizer_init_def)

text \<open>
  Claim C2, the constructor of \<open>FabolasWithMUMBO\<close> at a main fidelity of a class outside
  its four. The chain of \<open>isinstance\<close> tests of lines 95 to 109 has no \<open>else\<close>: it
  raises nothing and assigns nothing, where \<open>FabolasOptimizer\<close> raises the
  \<open>RuntimeError\<close> of line 53 on the same input. The construction only ends at line 115,
  with the \<open>AttributeError\<close> of reading the unassigned \<open>info_sources\<close>, an error that
  does not speak of the type.
\<close>

theorem FabolasWithMUMBO_misses_type_check:
  "assign_info_sources (example_optimizer\<lparr>main_fidelity := OtherHyperparameter ''subsample''\<rparr>)
     = Inr None \<and>
   FabolasWithMUMBO_init (example_optimizer\<lparr>main_fidelity := OtherHyperparameter ''subsample''\<rparr>)
     = Inl AttributeError \<and>
   FabolasOptimizer_init (example_optimizer\<lparr>main_fidelity := OtherHyperparameter ''subsample''\<rparr>)
     = Inl RuntimeError"
  by (simp add: FabolasOptimizer_init_def FabolasWithMUMBO_init_def assign_info_sources_def)

subsection \<open>The information sources of a float fidelity\<close>

text \<open>
  Claim C4, at an input where it fails: with \<open>num_fidelity_values = 1\<close> and the budgets 0
  and 1 the only information source is the minimal budget 0; the maximal budget is not
  among the sources.
\<close>

theorem FabolasWithMUMBO_single_source_counterexample:
  "map_sum id info_sources (FabolasWithMUMBO_init one_source_optimizer) = Inr [Num (PyFloat 0)] \<and>
   max_budget one_source_optimizer = PyFloat 1 \<and>
   Num (max_budget one_source_optimizer) \<notin> set [Num (PyFloat 0)]"
proof -
  have a: "assign_info_sources one_source_optimizer = Inr (Some [Num (PyFloat 0)])"
    by (simp add: assign_info_sources_def one_source_optimizer_def example_optimizer_def
        example_get_setting_def linspace_def)
  have s: "get_mandatory_optimizer_setting one_source_optimizer (settings one_source_optimizer) k
      = example_get_setting (settings one_source_optimizer) k" for k
    by (simp add: one_source_optimizer_def example_optimizer_def)
  have n: "read_n_init one_source_optimizer = Inr 4"
    by (simp add: read_n_init_def one_source_optimizer_def example_optimizer_def
        example_get_setting_def)
  have "map_sum id info_sources (FabolasWithMUMBO_init one_source_optimizer)
      = Inr [Num (PyFloat 0)]"
    by (simp add: FabolasWithMUMBO_init_def a n s)
      (simp add: one_source_optimizer_def example_optimizer_def example_get_setting_def
        optimizer.defs FabolasWithMUMBO.defs)
  moreover have "max_budget one_source_optimizer = PyFloat 1"
    by (simp add: one_source_optimizer_def example_optimizer_def)
  ultimately show ?thesis by simp
qed

text \<open>
  Claim C4, amended. When \<open>FabolasWithMUMBO\<close> is constructed with a uniform float main
  fidelity and \<open>num_fidelity_values = n\<close> is at least 2, there are exactly \<open>n\<close>
  information sources, the \<open>i\<close>-th (from 0) being \<open>min_budget\<close> plus \<open>i\<close> steps of
  \<open>(max_budget - min_budget) / (n - 1)\<close>, the first \<open>min_budget\<close> and the last
  \<open>max_budget\<close>; and \<open>fidelity_emukit_to_cs\<close> sends every index \<open>s\<close> from 1 to \<open>n\<close> to
  the \<open>s\<close>-th source under the name of the main fidelity.
\<close>

theorem FabolasWithMUMBO_float_fidelity:
  assumes "is_UniformFloat (main_fidelity self)"
    and "get_mandatory_optimizer_setting self (settings self) ''num_fidelity_values''
           = Inr (PyInt n)"
    and "2 \<le> n"
    and "FabolasWithMUMBO_init self = Inr opt"
  shows "length (info_sources opt) = nat n \<and>
    (\<forall>i < nat n. info_sources opt ! i
        = Num (PyFloat (num_val (min_budget self)
            + real i * ((num_val (max_budget self) - num_val (min_budget self)) / real (nat n - 1))))) \<and>
    hd (info_sources opt) = Num (PyFloat (num_val (min_budget self))) \<and>
    last (info_sources opt) = Num (PyFloat (num_val (max_budget self))) \<and>
    (\<forall>s. 1 \<le> s \<and> s \<le> n \<longrightarrow>
       fidelity_emukit_to_cs opt (of_int s)
         = Inr (name (main_fidelity self), info_sources opt ! nat (s - 1)))"
proof -
  let ?l = "linspace (num_val (min_budget self)) (num_val (max_budget self)) (nat n)"
  have n2: "2 \<le> nat n" using assms(3) by simp
  have "assign_info_sources self = Inr (Some (map (\<lambda>x. Num (PyFloat x)) ?l))"
    using assms(1,2,3) by (simp add: assign_info_sources_def)
  then have src: "info_sources opt = map (\<lambda>x. Num (PyFloat x)) ?l"
    using FabolasWithMUMBO_init_fields(1)[OF assms(4)] by simp
  have len: "length (info_sources opt) = nat n" by (simp add: src length_linspace)
  have nth: "\<forall>i < nat n. info_sources opt ! i
        = Num (PyFloat (num_val (min_budget self)
            + real i * ((num_val (max_budget self) - num_val (min_budget self)) / real (nat n - 1))))"
    using n2 by (simp add: src length_linspace nth_linspace)
  have "length ?l = nat n" by (rule length_linspace)
  then have ne: "?l \<noteq> []" using n2 by auto
  have h: "hd (info_sources opt) = Num (PyFloat (num_val (min_budget self)))"
    using ne by (simp add: src hd_map hd_linspace[OF n2])
  have l: "last (info_sources opt) = Num (PyFloat (num_val (max_budget self)))"
    using ne by (simp add: src last_map last_linspace[OF n2])
  have f: "\<forall>s. 1 \<le> s \<and> s \<le> n \<longrightarrow>
       fidelity_emukit_to_cs opt (of_int s)
         = Inr (name (main_fidelity self), info_sources opt ! nat (s - 1))"
  proof (intro allI impI)
    fix s :: int
    assume s: "1 \<le> s \<and> s \<le> n"
    then have "py_index (info_sources opt) (s - 1) = Inr (info_sources opt ! nat (s - 1))"
      using len by (simp add: py_index_def)
    then show "fidelity_emukit_to_cs opt (of_int s)
         = Inr (name (main_fidelity self), info_sources opt ! nat (s - 1))"
      by (simp add: fidelity_emukit_to_cs_def FabolasWithMUMBO_init_fields(4)[OF assms(4)])
  qed
  from len nth h l f show ?thesis by blast
qed

theorem FabolasWithMUMBO_float_fidelity_witness:
  "is_UniformFloat (main_fidelity example_optimizer) \<and>
   get_mandatory_optimizer_setting example_optimizer (settings example_optimizer)
     ''num_fidelity_values'' = Inr (PyInt 3) \<and>
   map_sum id info_sources (FabolasWithMUMBO_init example_optimizer)
     = Inr [Num (PyFloat 0), Num (PyFloat (1 / 2)), Num (PyFloat 1)] \<and>
   fidelity_emukit_to_cs
     (optimizer.extend example_optimizer
         (FabolasWithMUMBO.fields [Num (PyFloat 0), Num (PyFloat (1 / 2)), Num (PyFloat 1)]
            (1, 3) 4 (PyInt 1, PyInt 0) (PyInt 10, PyInt 100))) 2
     = Inr (''subsample'', Num (PyFloat (1 / 2)))"
proof -
  let ?opt = "optimizer.extend example_optimizer
         (FabolasWithMUMBO.fields [Num (PyFloat 0), Num (PyFloat (1 / 2)), Num (PyFloat 1)]
            (1, 3) 4 (PyInt 1, PyInt 0) (PyInt 10, PyInt 100))"
  have a: "is_UniformFloat (main_fidelity example_optimizer)"
    by (simp add: example_optimizer_def)
  have b: "get_mandatory_optimizer_setting example_optimizer (settings example_optimizer)
     ''num_fidelity_values'' = Inr (PyInt 3)"
    by (simp add: example_optimizer_def example_get_setting_def)
  have c: "(2::int) \<le> 3" by simp
  have i: "info_sources ?opt = [Num (PyFloat 0), Num (PyFloat (1 / 2)), Num (PyFloat 1)]"
    by (simp add: optimizer.defs FabolasWithMUMBO.defs)
  have nm: "name (main_fidelity example_optimizer) = ''subsample''"
    by (simp add: example_optimizer_def)
  note t = FabolasWithMUMBO_float_fidelity [OF a b c example_FabolasWithMUMBO_init]
  have "fidelity_emukit_to_cs ?opt (of_int 2)
         = Inr (name (main_fidelity example_optimizer), info_sources ?opt ! nat (2 - 1))"
    using t [THEN conjunct2, THEN conjunct2, THEN conjunct2, THEN conjunct2, rule_format, of 2]
    by simp
  then have "fidelity_emukit_to_cs ?opt 2 = Inr (''subsample'', Num (PyFloat (1 / 2)))"
    by (simp add: i nm)
  then show ?thesis using a b i by (simp add: example_FabolasWithMUMBO_init)
qed

subsection \<open>The warm-start design\<close>

lemma sample_fidelities_cycle:
  assumes "emukit_fidelity opt = (lo, hi)"
    and "info_sources opt \<noteq> []"
    and "int (length (info_sources opt)) \<le> hi - lo + 1"
    and "0 \<le> FabolasWithMUMBO.n_init opt"
  shows "sample_fidelities opt
      = Inr (py_take (FabolasWithMUMBO.n_init opt)
          (concat (replicate
             (nat (FabolasWithMUMBO.n_init opt div int (length (info_sources opt)) + 1))
             [lo..hi])))"
    and "\<exists>fs. sample_fidelities opt = Inr fs \<and> length fs = nat (FabolasWithMUMBO.n_init opt) \<and>
           (\<forall>i < length fs. fs ! i = lo + int (i mod nat (hi - lo + 1)))"
proof -
  let ?n = "FabolasWithMUMBO.n_init opt"
  let ?m = "int (length (info_sources opt))"
  let ?tiled = "concat (replicate (nat (?n div ?m + 1)) [lo..hi])"
  have m: "0 < ?m" using assms(2) by simp
  have reps: "0 \<le> ?n div ?m + 1"
    using assms(4) m by (simp add: pos_imp_zdiv_nonneg_iff)
  show eq: "sample_fidelities opt = Inr (py_take ?n ?tiled)"
    using assms(1,2) reps by (simp add: sample_fidelities_def)
  have w: "length [lo..hi] = nat (hi - lo + 1)" by simp
  have cover: "nat ?n < nat (?n div ?m + 1) * nat (hi - lo + 1)"
    using assms(4) m assms(3) by (rule tile_covers)
  have len: "length (py_take ?n ?tiled) = nat ?n"
    using assms(4) cover by (simp add: py_take_def length_concat_replicate)
  have nth: "py_take ?n ?tiled ! i = lo + int (i mod nat (hi - lo + 1))" if "i < nat ?n" for i
  proof -
    have i: "i < nat (?n div ?m + 1) * length [lo..hi]" using that cover by simp
    have pos: "0 < nat (hi - lo + 1)" using cover by (cases "nat (hi - lo + 1)") simp_all
    then have j: "i mod nat (hi - lo + 1) < nat (hi - lo + 1)" by simp
    have "py_take ?n ?tiled ! i = ?tiled ! i"
      using that assms(4) by (simp add: py_take_def)
    also have "\<dots> = [lo..hi] ! (i mod length [lo..hi])"
      using i by (rule nth_concat_replicate)
    also have "\<dots> = lo + int (i mod nat (hi - lo + 1))"
      using j by (simp add: nth_upto)
    finally show ?thesis .
  qed
  show "\<exists>fs. sample_fidelities opt = Inr fs \<and> length fs = nat ?n \<and>
           (\<forall>i < length fs. fs ! i = lo + int (i mod nat (hi - lo + 1)))"
    using eq len nth by auto
qed

text \<open>
  Claim C5. After a successful construction, \<open>n_init\<close> is
  \<open>int(init_samples_per_dim * dimensionality)\<close>. When the bounds \<open>lo\<close> and \<open>hi\<close> of the
  fidelity parameter span at least as many integers as there are information sources, of
  which there is at least one, and the Latin design has returned \<open>n_init\<close> points, then
  the sampled fidelities are the range from \<open>lo\<close> to \<open>hi\<close> tiled
  \<open>n_init // number of sources + 1\<close> times and cut to \<open>n_init\<close> entries, \<open>X_init\<close> has
  exactly \<open>n_init\<close> rows, and row \<open>i\<close> is the \<open>i\<close>-th point of the design followed by
  the fidelity index \<open>lo + i mod (hi - lo + 1)\<close>.
\<close>

theorem FabolasWithMUMBO_warm_start:
  assumes "FabolasWithMUMBO_init self = Inr opt"
    and "get_mandatory_optimizer_setting self (settings self) ''init_samples_per_dim'' = Inr v"
    and "emukit_fidelity opt = (lo, hi)"
    and "info_sources opt \<noteq> []"
    and "int (length (info_sources opt)) \<le> hi - lo + 1"
    and "int (length grid) = FabolasWithMUMBO.n_init opt"
  shows "FabolasWithMUMBO.n_init opt = py_int (py_mul v (PyInt (int (dimensionality self)))) \<and>
    sample_fidelities opt
      = Inr (py_take (FabolasWithMUMBO.n_init opt)
          (concat (replicate
             (nat (FabolasWithMUMBO.n_init opt div int (length (info_sources opt)) + 1))
             [lo..hi]))) \<and>
    (\<exists>X. X_init opt grid = Inr X \<and> length X = nat (FabolasWithMUMBO.n_init opt) \<and>
       (\<forall>i < length X. X ! i = grid ! i @ [of_int (lo + int (i mod nat (hi - lo + 1)))]))"
proof -
  let ?n = "FabolasWithMUMBO.n_init opt"
  have n0: "0 \<le> ?n" using assms(6) by linarith
  have "read_n_init self = Inr ?n" using assms(1) by (rule FabolasWithMUMBO_init_fields(2))
  then have a: "?n = py_int (py_mul v (PyInt (int (dimensionality self))))"
    using assms(2) by (simp add: read_n_init_def)
  note b = sample_fidelities_cycle(1)[OF assms(3,4,5) n0]
  obtain fs where fs: "sample_fidelities opt = Inr fs" "length fs = nat ?n"
      "\<forall>i < length fs. fs ! i = lo + int (i mod nat (hi - lo + 1))"
    using sample_fidelities_cycle(2)[OF assms(3,4,5) n0] by blast
  have lg: "length grid = length fs" using fs(2) assms(6) by simp
  let ?X = "map (\<lambda>(row, s). row @ [of_int s]) (zip grid fs)"
  have x: "X_init opt grid = Inr ?X" using fs(1) lg by (simp add: X_init_def)
  have "length ?X = nat ?n" using lg fs(2) by simp
  moreover have "\<forall>i < length ?X. ?X ! i = grid ! i @ [of_int (lo + int (i mod nat (hi - lo + 1)))]"
    using lg fs(3) by simp
  ultimately have "\<exists>X. X_init opt grid = Inr X \<and> length X = nat ?n \<and>
       (\<forall>i < length X. X ! i = grid ! i @ [of_int (lo + int (i mod nat (hi - lo + 1)))])"
    using x by blast
  with a b show ?thesis by blast
qed

theorem FabolasWithMUMBO_warm_start_witness:
  "FabolasWithMUMBO_init example_optimizer
     = Inr (optimizer.extend example_optimizer
         (FabolasWithMUMBO.fields [Num (PyFloat 0), Num (PyFloat (1 / 2)), Num (PyFloat 1)]
            (1, 3) 4 (PyInt 1, PyInt 0) (PyInt 10, PyInt 100))) \<and>
   get_mandatory_optimizer_setting example_optimizer (settings example_optimizer)
     ''init_samples_per_dim'' = Inr (PyInt 2) \<and>
   py_int (py_mul (PyInt 2) (PyInt (int (dimensionality example_optimizer)))) = 4 \<and>
   sample_fidelities (optimizer.extend example_optimizer
         (FabolasWithMUMBO.fields [Num (PyFloat 0), Num (PyFloat (1 / 2)), Num (PyFloat 1)]
            (1, 3) 4 (PyInt 1, PyInt 0) (PyInt 10, PyInt 100)))
     = Inr [1, 2, 3, 1] \<and>
   X_init (optimizer.extend example_optimizer
         (FabolasWithMUMBO.fields [Num (PyFloat 0), Num (PyFloat (1 / 2)), Num (PyFloat 1)]
            (1, 3) 4 (PyInt 1, PyInt 0) (PyInt 10, PyInt 100)))
       [[0, 0], [1, 1], [2, 2], [3, 3]]
     = Inr [[0, 0, 1], [1, 1, 2], [2, 2, 3], [3, 3, 1]]"
proof -
  let ?opt = "optimizer.extend example_optimizer
         (FabolasWithMUMBO.fields [Num (PyFloat 0), Num (PyFloat (1 / 2)), Num (PyFloat 1)]
            (1, 3) 4 (PyInt 1, PyInt 0) (PyInt 10, PyInt 100))"
  let ?grid = "[[0, 0], [1, 1], [2, 2], [3, 3]] :: real list list"
  have b: "get_mandatory_optimizer_setting example_optimizer (settings example_optimizer)
     ''init_samples_per_dim'' = Inr (PyInt 2)"
    by (simp add: example_optimizer_def example_get_setting_def)
  have c: "emukit_fidelity ?opt = (1, 3)" by (simp add: optimizer.defs FabolasWithMUMBO.defs)
  have i: "info_sources ?opt = [Num (PyFloat 0), Num (PyFloat (1 / 2)), Num (PyFloat 1)]"
    by (simp add: optimizer.defs FabolasWithMUMBO.defs)
  have n: "FabolasWithMUMBO.n_init ?opt = 4" by (simp add: optimizer.defs FabolasWithMUMBO.defs)
  have d: "info_sources ?opt \<noteq> []" by (simp add: i)
  have e: "int (length (info_sources ?opt)) \<le> 3 - 1 + 1" by (simp add: i)
  have g: "int (length ?grid) = FabolasWithMUMBO.n_init ?opt" by (simp add: n)
  note t = FabolasWithMUMBO_warm_start [OF example_FabolasWithMUMBO_init b c d e g]
  have u: "[1..3::int] = [1, 2, 3]" by code_simp
  have tiled: "py_take 4 (concat (replicate 2 [1, 2, 3 :: int])) = [1, 2, 3, 1]"
    by (simp add: py_take_def numeral_2_eq_2)
  have s: "sample_fidelities ?opt = Inr [1, 2, 3, 1]"
    using t [THEN conjunct2, THEN conjunct1] by (simp add: n i u tiled)
  have x: "X_init ?opt ?grid = Inr [[0, 0, 1], [1, 1, 2], [2, 2, 3], [3, 3, 1]]"
    by (simp add: X_init_def s)
  have m: "py_int (py_mul (PyInt 2) (PyInt (int (dimensionality example_optimizer)))) = 4"
    using t [THEN conjunct1] by (simp add: n)
  show ?thesis using b m s x by (simp add: example_FabolasWithMUMBO_init)
qed

subsection \<open>The benchmark wrapper of \<open>FabolasWithMUMBO\<close>\<close>

text \<open>
  When the first row has a column and its last entry is a valid fidelity index, the loop
  runs through without an exception, makes one call per row, and every call has the
  configuration and the fidelity of the first row. The other rows only count.
\<close>

lemma wrapper_loop_first_row:
  assumes "row0 \<noteq> []" and "fidelity_emukit_to_cs self (last row0) = Inr fid"
  shows "\<exists>st'. wrapper_loop self (row0 # others) rest st = (None, st') \<and>
           length (yvals st') = length (yvals st) + length rest \<and>
           length (costs st') = length (costs st) + length rest \<and>
           calls st' = calls st @ replicate (length rest) (make_config self (butlast row0), fid)"
proof (induction rest arbitrary: st)
  case Nil
  then show ?case by simp
next
  case (Cons r rest)
  obtain y c b where ob:
    "objective_function self (bench st) (make_config self (butlast row0)) fid = ((y, c), b)"
    by (metis surj_pair)
  let ?st1 = "\<lparr>bench = b, yvals = yvals st @ [y], costs = costs st @ [c],
               calls = calls st @ [(make_config self (butlast row0), fid)]\<rparr>"
  have step: "wrapper_loop self (row0 # others) (r # rest) st
      = wrapper_loop self (row0 # others) rest ?st1"
    using assms ob by (simp add: Let_def)
  obtain st' where st': "wrapper_loop self (row0 # others) rest ?st1 = (None, st')"
      "length (yvals st') = length (yvals ?st1) + length rest"
      "length (costs st') = length (costs ?st1) + length rest"
      "calls st' = calls ?st1 @ replicate (length rest) (make_config self (butlast row0), fid)"
    using Cons.IH[of ?st1] by blast
  have "calls st' = calls st @ replicate (length (r # rest)) (make_config self (butlast row0), fid)"
    using st'(4) by (simp add: replicate_append_same)
  then show ?case using step st'(1,2,3) by simp
qed

lemma wrapper_loop_other_rows:
  "length rest = length rest' \<Longrightarrow>
   wrapper_loop self (row0 # others) rest st = wrapper_loop self (row0 # others') rest' st"
proof (induction rest rest' arbitrary: st rule: list_induct2)
  case Nil
  then show ?case by simp
next
  case (Cons r rest r' rest')
  show ?case
    by (simp add: Let_def Cons.IH split: sum.splits prod.splits)
qed

text \<open>
  Claim C9. For a two-dimensional input of \<open>n \<ge> 1\<close> rows whose first row holds a valid
  fidelity index, the wrapper returns two arrays of shape \<open>(n, 1)\<close>; each of the \<open>n\<close>
  calls of the objective function has the configuration and the fidelity of the first
  row; replacing the other rows changes nothing; and a one-dimensional input is treated
  as the array of that one row.
\<close>

theorem wrapper_evaluates_first_row:
  assumes "row0 \<noteq> []" and "fidelity_emukit_to_cs self (last row0) = Inr fid"
  shows "(\<exists>ys cs st. wrapper self b (Array2 (row0 # rows)) = (Inr (ys, cs), st) \<and>
            length ys = Suc (length rows) \<and> (\<forall>y \<in> set ys. length y = 1) \<and>
            length cs = Suc (length rows) \<and> (\<forall>c \<in> set cs. length c = 1) \<and>
            calls st = replicate (Suc (length rows)) (make_config self (butlast row0), fid)) \<and>
         (\<forall>rows'. length rows' = length rows \<longrightarrow>
            wrapper self b (Array2 (row0 # rows')) = wrapper self b (Array2 (row0 # rows))) \<and>
         wrapper self b (Array1 row0) = wrapper self b (Array2 [row0])"
proof (intro conjI allI impI)
  let ?st0 = "\<lparr>bench = b, yvals = [], costs = [], calls = []\<rparr>"
  obtain st where st: "wrapper_loop self (row0 # rows) (row0 # rows) ?st0 = (None, st)"
      "length (yvals st) = length (yvals ?st0) + length (row0 # rows)"
      "length (costs st) = length (costs ?st0) + length (row0 # rows)"
      "calls st = calls ?st0 @ replicate (length (row0 # rows)) (make_config self (butlast row0), fid)"
    using wrapper_loop_first_row[OF assms, of rows "row0 # rows" ?st0] by blast
  have w: "wrapper self b (Array2 (row0 # rows))
      = (Inr (map (\<lambda>y. [y]) (yvals st), map (\<lambda>c. [c]) (costs st)), st)"
    by (simp add: wrapper_def Let_def st(1) del: wrapper_loop.simps)
  show "\<exists>ys cs st. wrapper self b (Array2 (row0 # rows)) = (Inr (ys, cs), st) \<and>
            length ys = Suc (length rows) \<and> (\<forall>y \<in> set ys. length y = 1) \<and>
            length cs = Suc (length rows) \<and> (\<forall>c \<in> set cs. length c = 1) \<and>
            calls st = replicate (Suc (length rows)) (make_config self (butlast row0), fid)"
    using w st(2,3,4) by auto
next
  fix rows' :: "real list list"
  assume "length rows' = length rows"
  then have "wrapper_loop self (row0 # rows') (row0 # rows') \<lparr>bench = b, yvals = [], costs = [], calls = []\<rparr>
      = wrapper_loop self (row0 # rows) (row0 # rows) \<lparr>bench = b, yvals = [], costs = [], calls = []\<rparr>"
    by (intro wrapper_loop_other_rows) simp
  then show "wrapper self b (Array2 (row0 # rows')) = wrapper self b (Array2 (row0 # rows))"
    by (simp add: wrapper_def Let_def del: wrapper_loop.simps)
next
  show "wrapper self b (Array1 row0) = wrapper self b (Array2 [row0])"
    by (simp add: wrapper_def Let_def del: wrapper_loop.simps)
qed

theorem wrapper_evaluates_first_row_witness:
  "[3 / 10, 5, 2 :: real] \<noteq> [] \<and>
   fidelity_emukit_to_cs
     (optimizer.extend example_optimizer
         (FabolasWithMUMBO.fields [Num (PyFloat 0), Num (PyFloat (1 / 2)), Num (PyFloat 1)]
            (1, 3) 4 (PyInt 1, PyInt 0) (PyInt 10, PyInt 100)))
     (last [3 / 10, 5, 2]) = Inr (''subsample'', Num (PyFloat (1 / 2))) \<and>
   wrapper
     (optimizer.extend example_optimizer
         (FabolasWithMUMBO.fields [Num (PyFloat 0), Num (PyFloat (1 / 2)), Num (PyFloat 1)]
            (1, 3) 4 (PyInt 1, PyInt 0) (PyInt 10, PyInt 100)))
     0 (Array2 [[3 / 10, 5, 2], [9 / 10, 7, 3]])
   = (Inr ([[0], [1]], [[1], [1]]),
      \<lparr>bench = 2, yvals = [0, 1], costs = [1, 1],
       calls = [([(''eta'', Num (PyFloat (3 / 10))), (''max_depth'', Num (PyInt 5))],
                 (''subsample'', Num (PyFloat (1 / 2)))),
                ([(''eta'', Num (PyFloat (3 / 10))), (''max_depth'', Num (PyInt 5))],
                 (''subsample'', Num (PyFloat (1 / 2))))]\<rparr>) \<and>
   wrapper
     (optimizer.extend example_optimizer
         (FabolasWithMUMBO.fields [Num (PyFloat 0), Num (PyFloat (1 / 2)), Num (PyFloat 1)]
            (1, 3) 4 (PyInt 1, PyInt 0) (PyInt 10, PyInt 100)))
     0 (Array2 [[3 / 10, 5, 2], [0, 0, 0]])
   = wrapper
     (optimizer.extend example_optimizer
         (FabolasWithMUMBO.fields [Num (PyFloat 0), Num (PyFloat (1 / 2)), Num (PyFloat 1)]
            (1, 3) 4 (PyInt 1, PyInt 0) (PyInt 10, PyInt 100)))
     0 (Array2 [[3 / 10, 5, 2], [9 / 10, 7, 3]])"
proof -
  let ?opt = "optimizer.extend example_optimizer
         (FabolasWithMUMBO.fields [Num (PyFloat 0), Num (PyFloat (1 / 2)), Num (PyFloat 1)]
            (1, 3) 4 (PyInt 1, PyInt 0) (PyInt 10, PyInt 100))"
  have a: "[3 / 10, 5, 2 :: real] \<noteq> []" by simp
  have b: "fidelity_emukit_to_cs ?opt (last [3 / 10, 5, 2])
      = Inr (''subsample'', Num (PyFloat (1 / 2)))"
    by (simp add: fidelity_emukit_to_cs_def py_index_def optimizer.defs FabolasWithMUMBO.defs
        example_optimizer_def)
  have c: "make_config ?opt (butlast [3 / 10, 5, 2])
      = [(''eta'', Num (PyFloat (3 / 10))), (''max_depth'', Num (PyInt 5))]"
    by (simp add: make_config_def optimizer.defs FabolasWithMUMBO.defs example_optimizer_def)
  have o: "objective_function ?opt = (\<lambda>b config fidelity. ((real b, 1), Suc b))"
    by (simp add: optimizer.defs FabolasWithMUMBO.defs example_optimizer_def)
  have w: "wrapper ?opt 0 (Array2 [[3 / 10, 5, 2], [9 / 10, 7, 3]])
   = (Inr ([[0], [1]], [[1], [1]]),
      \<lparr>bench = 2, yvals = [0, 1], costs = [1, 1],
       calls = [([(''eta'', Num (PyFloat (3 / 10))), (''max_depth'', Num (PyInt 5))],
                 (''subsample'', Num (PyFloat (1 / 2)))),
                ([(''eta'', Num (PyFloat (3 / 10))), (''max_depth'', Num (PyInt 5))],
                 (''subsample'', Num (PyFloat (1 / 2))))]\<rparr>)"
    using b c by (simp add: wrapper_def Let_def o)
  note t = wrapper_evaluates_first_row [OF a b, of 0 "[[9 / 10, 7, 3]]"]
  have i: "wrapper ?opt 0 (Array2 [[3 / 10, 5, 2], [0, 0, 0]])
      = wrapper ?opt 0 (Array2 [[3 / 10, 5, 2], [9 / 10, 7, 3]])"
    using t [THEN conjunct2, THEN conjunct1, rule_format, of "[[0, 0, 0]]"] by simp
  show ?thesis using a b w i by blast
qed

end
